theory Spec2Isabelle
  imports Main
begin

section \<open>SHA-256 hex digests (the library function behind \<open>hash_id\<close>)\<close>

text \<open>
  All three collectors derive their primary key with
  \<^verbatim>\<open>hashlib.sha256(text.encode()).hexdigest()\<close>.
  The digest is modelled after FIPS 180-4 on 32-bit values held in \<open>int\<close>, every
  addition reduced \<open>mod 2 ^ 32\<close>. A \<open>string\<close> stands for a Python \<open>str\<close> that can
  be encoded, given by the bytes of \<open>text.encode()\<close> (UTF-8), one \<open>char\<close> per byte.
\<close>

definition add32 :: "int \<Rightarrow> int \<Rightarrow> int" where
  "add32 x y = (x + y) mod 4294967296"

definition rotr :: "nat \<Rightarrow> int \<Rightarrow> int" where
  "rotr n x = x div 2 ^ n + (x mod 2 ^ n) * 2 ^ (32 - n)"

definition shr :: "nat \<Rightarrow> int \<Rightarrow> int" where
  "shr n x = x div 2 ^ n"

text \<open>The complement of a 32-bit value \<open>x\<close> is \<open>2 ^ 32 - 1 - x\<close>.\<close>

definition Ch :: "int \<Rightarrow> int \<Rightarrow> int \<Rightarrow> int" where
  "Ch x y z = xor (and x y) (and (4294967295 - x) z)"

definition Maj :: "int \<Rightarrow> int \<Rightarrow> int \<Rightarrow> int" where
  "Maj x y z = xor (xor (and x y) (and x z)) (and y z)"

definition bsig0 :: "int \<Rightarrow> int" where
  "bsig0 x = xor (xor (rotr 2 x) (rotr 13 x)) (rotr 22 x)"

definition bsig1 :: "int \<Rightarrow> int" where
  "bsig1 x = xor (xor (rotr 6 x) (rotr 11 x)) (rotr 25 x)"

definition ssig0 :: "int \<Rightarrow> int" where
  "ssig0 x = xor (xor (rotr 7 x) (rotr 18 x)) (shr 3 x)"

definition ssig1 :: "int \<Rightarrow> int" where
  "ssig1 x = xor (xor (rotr 17 x) (rotr 19 x)) (shr 10 x)"

text \<open>
  \<open>K256\<close> holds the first 32 bits of the fractional parts of the cube roots of the
  first 64 primes, \<open>H256\<close> those of the square roots of the first 8 primes.
\<close>

definition K256 :: "int list" where
  "K256 = [
   1116352408, 1899447441, 3049323471, 3921009573, 961987163, 1508970993, 2453635748, 2870763221,
   3624381080, 310598401, 607225278, 1426881987, 1925078388, 2162078206, 2614888103, 3248222580,
   3835390401, 4022224774, 264347078, 604807628, 770255983, 1249150122, 1555081692, 1996064986,
   2554220882, 2821834349, 2952996808, 3210313671, 3336571891, 3584528711, 113926993, 338241895,
   666307205, 773529912, 1294757372, 1396182291, 1695183700, 1986661051, 2177026350, 2456956037,
   2730485921, 2820302411, 3259730800, 3345764771, 3516065817, 3600352804, 4094571909, 275423344,
   430227734, 506948616, 659060556, 883997877, 958139571, 1322822218, 1537002063, 1747873779,
   1955562222, 2024104815, 2227730452, 2361852424, 2428436474, 2756734187, 3204031479, 3329325298]"

record sha_state =
  sa :: int
  sb :: int
  sc :: int
  sd :: int
  se :: int
  sf :: int
  sg :: int
  sh :: int

definition H256 :: sha_state where
  "H256 = \<lparr>sa = 1779033703, sb = 3144134277, sc = 1013904242, sd = 2773480762,
            se = 1359893119, sf = 2600822924, sg = 528734635, sh = 1541459225\<rparr>"

text \<open>Padding: a \<open>0x80\<close> byte, zero bytes up to 56 modulo 64, the bit length in 8 bytes.\<close>

definition pad :: "int list \<Rightarrow> int list" where
  "pad bs = (let l = length bs in
     bs @ [128] @ replicate ((55 + 64 - l mod 64) mod 64) 0
        @ map (\<lambda>i. (8 * int l) div 256 ^ i mod 256) (rev [0..<8]))"

fun words_of :: "int list \<Rightarrow> int list" where
  "words_of (a # b # c # d # bs) = (((a * 256 + b) * 256 + c) * 256 + d) # words_of bs"
| "words_of _ = []"

fun blocks :: "int list \<Rightarrow> int list list" where
  "blocks ws = (if length ws < 16 then [] else take 16 ws # blocks (drop 16 ws))"

declare blocks.simps [simp del]

text \<open>The message schedule: the 16 words of the block, then 48 derived words.\<close>

fun schedule :: "nat \<Rightarrow> int list \<Rightarrow> int list" where
  "schedule 0 w = []"
| "schedule (Suc n) w =
     hd w # schedule n (tl w @ [add32 (add32 (add32 (ssig1 (w ! 14)) (w ! 9)) (ssig0 (w ! 1))) (w ! 0)])"

definition round256 :: "sha_state \<Rightarrow> int \<times> int \<Rightarrow> sha_state" where
  "round256 s kw =
     (let t1 = add32 (add32 (add32 (add32 (sh s) (bsig1 (se s))) (Ch (se s) (sf s) (sg s))) (fst kw)) (snd kw);
          t2 = add32 (bsig0 (sa s)) (Maj (sa s) (sb s) (sc s))
      in \<lparr>sa = add32 t1 t2, sb = sa s, sc = sb s, sd = sc s,
          se = add32 (sd s) t1, sf = se s, sg = sf s, sh = sg s\<rparr>)"

definition compress :: "sha_state \<Rightarrow> int list \<Rightarrow> sha_state" where
  "compress s blk =
     (let r = foldl round256 s (zip K256 (schedule 64 blk))
      in \<lparr>sa = add32 (sa s) (sa r), sb = add32 (sb s) (sb r), sc = add32 (sc s) (sc r),
          sd = add32 (sd s) (sd r), se = add32 (se s) (se r), sf = add32 (sf s) (sf r),
          sg = add32 (sg s) (sg r), sh = add32 (sh s) (sh r)\<rparr>)"

definition hexdigit :: "int \<Rightarrow> char" where
  "hexdigit n = (if n < 10 then char_of (48 + n) else char_of (87 + n))"

definition hex32 :: "int \<Rightarrow> string" where
  "hex32 w = map (\<lambda>i. hexdigit (w div 16 ^ i mod 16)) (rev [0..<8])"

definition hexdigest :: "sha_state \<Rightarrow> string" where
  "hexdigest s = hex32 (sa s) @ hex32 (sb s) @ hex32 (sc s) @ hex32 (sd s)
               @ hex32 (se s) @ hex32 (sf s) @ hex32 (sg s) @ hex32 (sh s)"

definition sha256 :: "string \<Rightarrow> sha_state" where
  "sha256 s = foldl compress H256 (blocks (words_of (pad (map of_char s))))"

text \<open>
  Each collector notebook defines its own \<open>hash_id\<close>; the three bodies are kept
  apart here, one per notebook.
\<close>

definition hash_id_gdelt :: "string \<Rightarrow> string" where
  "hash_id_gdelt text = hexdigest (sha256 text)"

definition hash_id_rss :: "string \<Rightarrow> string" where
  "hash_id_rss text = hexdigest (sha256 text)"

definition hash_id_twitter :: "string \<Rightarrow> string" where
  "hash_id_twitter text = hexdigest (sha256 text)"


section \<open>Watch-list and ticker matching\<close>

text \<open>
  \<open>COMPANY_NAMES\<close> is a Python dict iterated with \<open>.items()\<close>: an association list
  in insertion order. The feed notebook tracks \<open>XRP\<close> under its symbol instead of
  \<open>Ripple\<close>.
\<close>

type_synonym watchlist = "(string \<times> string) list"

definition COMPANY_NAMES :: watchlist where
  "COMPANY_NAMES =
     [(''Google'', ''GOOGL''), (''Apple'', ''AAPL''), (''Amazon'', ''AMZN''),
      (''Nvidia'', ''NVDA''), (''Microsoft'', ''MSFT''), (''Bitcoin'', ''BTC''),
      (''Ripple'', ''XRP'')]"

definition COMPANY_NAMES_rss :: watchlist where
  "COMPANY_NAMES_rss =
     [(''Google'', ''GOOGL''), (''Apple'', ''AAPL''), (''Amazon'', ''AMZN''),
      (''Nvidia'', ''NVDA''), (''Microsoft'', ''MSFT''), (''Bitcoin'', ''BTC''),
      (''XRP'', ''XRP'')]"

text \<open>Python's \<open>x in y\<close> on strings: \<open>x\<close> occurs in \<open>y\<close> as a contiguous run.\<close>

fun starts_with :: "string \<Rightarrow> string \<Rightarrow> bool" where
  "starts_with [] ys = True"
| "starts_with (x # xs) [] = False"
| "starts_with (x # xs) (y # ys) = (x = y \<and> starts_with xs ys)"

fun str_in :: "string \<Rightarrow> string \<Rightarrow> bool" where
  "str_in xs [] = (xs = [])"
| "str_in xs (y # ys) = (starts_with xs (y # ys) \<or> str_in xs ys)"

text \<open>
  The list comprehension shared by the global-news, feed and microblog collectors:
  \<^verbatim>\<open>[ticker for name, ticker in COMPANY_NAMES.items()
     if name.lower() in title.lower() or ticker.lower() in title.lower()]\<close>
  \<open>str.lower\<close> is the library's Unicode case mapping; it is the parameter
  \<open>lower\<close> of the matcher and of every collector that matches.
\<close>

definition mentions :: "(string \<Rightarrow> string) \<Rightarrow> watchlist \<Rightarrow> string \<Rightarrow> string list" where
  "mentions lower W title =
     map snd (filter (\<lambda>nt. str_in (lower (fst nt)) (lower title)
                          \<or> str_in (lower (snd nt)) (lower title)) W)"

text \<open>
  What \<open>str.lower\<close> and \<open>str.upper\<close> give on a text of ASCII characters: the
  letters change case, every other character stays. The sample inputs are such texts.
\<close>

definition lower_ascii_char :: "char \<Rightarrow> char" where
  "lower_ascii_char c =
     (let n = (of_char c :: nat) in if 65 \<le> n \<and> n \<le> 90 then char_of (n + 32) else c)"

definition lower_ascii :: "string \<Rightarrow> string" where
  "lower_ascii s = map lower_ascii_char s"

definition upper_ascii_char :: "char \<Rightarrow> char" where
  "upper_ascii_char c =
     (let n = (of_char c :: nat) in if 97 \<le> n \<and> n \<le> 122 then char_of (n - 32) else c)"

definition upper_ascii :: "string \<Rightarrow> string" where
  "upper_ascii s = map upper_ascii_char s"

text \<open>
  The social-stream notebook matches differently:
  \<^verbatim>\<open>text = (post.title or "") + " " + (post.selftext or "")
  words = set(re.findall(r"\b[A-Z]{2,5}\b", text.upper()))
  matched = TICKERS & words\<close>
  \<open>upper\<close> stands for \<open>str.upper\<close> and \<open>findall\<close> for the library's search
  for the pattern.
\<close>

definition TICKERS :: "string list" where
  "TICKERS = [''GOOGL'', ''AAPL'', ''AMZN'', ''NVDA'', ''MSFT'', ''BTC'', ''XRP'']"

definition stream_matched ::
  "(string \<Rightarrow> string) \<Rightarrow> (string \<Rightarrow> string list) \<Rightarrow> string \<Rightarrow> string \<Rightarrow> string list" where
  "stream_matched upper findall title selftext =
     (let text = title @ '' '' @ selftext;
          words = findall (upper text)
      in filter (\<lambda>t. t \<in> set words) TICKERS)"

text \<open>
  What the search gives on a text of ASCII characters: there a match of
  \<^verbatim>\<open>\b[A-Z]{2,5}\b\<close> is a maximal run of word characters (letters, digits,
  underscore) that consists of two to five capital letters only.
\<close>

definition is_capital :: "char \<Rightarrow> bool" where
  "is_capital c = (let n = (of_char c :: nat) in 65 \<le> n \<and> n \<le> 90)"

definition is_word_char :: "char \<Rightarrow> bool" where
  "is_word_char c =
     (let n = (of_char c :: nat)
      in (65 \<le> n \<and> n \<le> 90) \<or> (97 \<le> n \<and> n \<le> 122) \<or> (48 \<le> n \<and> n \<le> 57) \<or> n = 95)"

fun word_runs :: "string \<Rightarrow> string \<Rightarrow> string list" where
  "word_runs cur [] = (if cur = [] then [] else [cur])"
| "word_runs cur (c # cs) =
     (if is_word_char c then word_runs (cur @ [c]) cs
      else if cur = [] then word_runs [] cs
      else cur # word_runs [] cs)"

definition findall_ascii :: "string \<Rightarrow> string list" where
  "findall_ascii text =
     filter (\<lambda>w. 2 \<le> length w \<and> length w \<le> 5 \<and> list_all is_capital w) (word_runs [] text)"


section \<open>The DuckDB store\<close>

text \<open>
  Every collector binds a timezone-aware \<open>datetime\<close> to its insert: \<open>Aware w off\<close>
  is the wall-clock reading \<open>w\<close>, in microseconds counted from 1970-01-01 00:00:00
  on that clock, with the UTC offset \<open>off\<close> in seconds. It names the instant
  \<open>w - 1000000 * off\<close>; with offset 0 the reading is the UTC time.
\<close>

datatype datetime = Aware int int

text \<open>
  Two tables. \<open>news_articles (article_id TEXT PRIMARY KEY, title, timestamp)\<close> rejects
  a second row with the same key; \<open>ticker_mentions (article_id, ticker)\<close> has no
  constraint. Every \<open>con.execute\<close> commits on its own. A row holds the values bound
  to the insert; how DuckDB renders the \<open>datetime\<close> in its \<open>TIMESTAMP\<close> column is
  not part of the model.
\<close>

record store =
  news_articles :: "(string \<times> string \<times> datetime) list"
  ticker_mentions :: "(string \<times> string) list"

datatype error = ValueError | TypeError | OverflowError | OSError | SourceError string

text \<open>
  \<^verbatim>\<open>INSERT INTO news_articles VALUES (?, ?, ?)\<close>;
  \<open>None\<close> is \<open>duckdb.ConstraintException\<close>, which leaves the table as it was.
\<close>

definition insert_news_article :: "store \<Rightarrow> string \<Rightarrow> string \<Rightarrow> datetime \<Rightarrow> store option" where
  "insert_news_article con article_id title ts =
     (if article_id \<in> set (map fst (news_articles con)) then None
      else Some (con\<lparr>news_articles := news_articles con @ [(article_id, title, ts)]\<rparr>))"

text \<open>\<^verbatim>\<open>INSERT INTO ticker_mentions VALUES (?, ?)\<close>\<close>

definition insert_ticker_mention :: "store \<Rightarrow> string \<Rightarrow> string \<Rightarrow> store" where
  "insert_ticker_mention con article_id ticker =
     con\<lparr>ticker_mentions := ticker_mentions con @ [(article_id, ticker)]\<rparr>"

text \<open>The loop \<^verbatim>\<open>for ticker in mentions: con.execute("INSERT INTO ticker_mentions ...")\<close>\<close>

definition insert_mention_rows :: "store \<Rightarrow> string \<Rightarrow> string list \<Rightarrow> store" where
  "insert_mention_rows con article_id ms =
     foldl (\<lambda>c ticker. insert_ticker_mention c article_id ticker) con ms"

definition empty_store :: store where
  "empty_store = \<lparr>news_articles = [], ticker_mentions = []\<rparr>"


section \<open>Global-news collector (GDELT)\<close>

record gdelt_article =
  art_url :: string
  art_title :: "string option"
  art_seendate :: "string option"

text \<open>\<^verbatim>\<open>clean = published.replace("T", "").rstrip("Z")\<close>\<close>

definition clean_seendate :: "string \<Rightarrow> string" where
  "clean_seendate published =
     rev (dropWhile (\<lambda>c. c = CHR ''Z'') (rev (filter (\<lambda>c. c \<noteq> CHR ''T'') published)))"

text \<open>
  One pass of the loop body of \<open>save_to_db\<close>. Every article carries its
  \<open>url\<close> (the code reads \<open>art["url"]\<close>); \<open>title\<close> is read with
  \<open>art.get("title", "")\<close>. \<open>strptime\<close> stands for
  \<^verbatim>\<open>datetime.strptime(clean, "%Y%m%d%H%M%S")\<close>: the naive reading the digits
  spell, \<open>None\<close> where it raises \<open>ValueError\<close>;
  \<^verbatim>\<open>.replace(tzinfo=timezone.utc)\<close> makes that reading a UTC time. An article
  without \<open>seendate\<close> is skipped; on a duplicate key the exception is swallowed with
  \<open>pass\<close> and the code goes on to write the mention rows.
\<close>

definition save_article_gdelt ::
  "(string \<Rightarrow> string) \<Rightarrow> (string \<Rightarrow> int option) \<Rightarrow> store \<Rightarrow> gdelt_article \<Rightarrow> error + store" where
  "save_article_gdelt lower strptime con art =
     (let article_id = hash_id_gdelt (art_url art);
          title = (case art_title art of None \<Rightarrow> [] | Some t \<Rightarrow> t)
      in case art_seendate art of
           None \<Rightarrow> Inr con
         | Some published \<Rightarrow>
             if published = [] then Inr con
             else (case strptime (clean_seendate published) of
                     None \<Rightarrow> Inl ValueError
                   | Some naive \<Rightarrow>
                       (let timestamp = Aware naive 0;
                            ms = mentions lower COMPANY_NAMES title
                        in if ms = [] then Inr con
                           else (let con1 = (case insert_news_article con article_id title timestamp of
                                               None \<Rightarrow> con
                                             | Some c \<Rightarrow> c)
                                 in Inr (insert_mention_rows con1 article_id ms)))))"

text \<open>
  \<open>save_to_db\<close>: the loop over the batch. An exception leaves the loop; the rows
  written before it stay in the database.
\<close>

fun save_to_db_gdelt ::
  "(string \<Rightarrow> string) \<Rightarrow> (string \<Rightarrow> int option) \<Rightarrow> store \<Rightarrow> gdelt_article list
     \<Rightarrow> error option \<times> store" where
  "save_to_db_gdelt lower strptime con [] = (None, con)"
| "save_to_db_gdelt lower strptime con (art # arts) =
     (case save_article_gdelt lower strptime con art of
        Inl e \<Rightarrow> (Some e, con)
      | Inr con' \<Rightarrow> save_to_db_gdelt lower strptime con' arts)"

text \<open>
  \<open>fetch_news\<close>: the paging loop. A request carries the page number and the window
  \<open>STARTDATETIME\<close>, \<open>ENDDATETIME\<close> (seconds); the endpoint is asked for
  \<open>maxrecords=250\<close>. A response is either a status other than 200 or the
  \<open>articles\<close> list of the JSON body (empty when the key is absent). The loop leaves
  with \<open>break\<close> on a failed request and on \<^verbatim>\<open>len(rows) <= 250\<close>. The requests made
  are recorded next to the articles. The loop has no bound of its own, so it is a
  partial function: \<open>None\<close> is a run that never returns.
\<close>

record request =
  rq_page :: nat
  rq_start :: int
  rq_end :: int

datatype response = Http_status int | Json_articles "gdelt_article list"

partial_function (option) fetch_pages ::
  "(request \<Rightarrow> response) \<Rightarrow> int \<Rightarrow> int \<Rightarrow> nat \<Rightarrow> gdelt_article list \<Rightarrow> request list
     \<Rightarrow> (gdelt_article list \<times> request list) option" where
  "fetch_pages get start now page all_articles requests =
     (let rq = \<lparr>rq_page = page, rq_start = start, rq_end = now\<rparr>
      in case get rq of
           Http_status st \<Rightarrow> Some (all_articles, requests @ [rq])
         | Json_articles rows \<Rightarrow>
             if length rows \<le> 250 then Some (all_articles @ rows, requests @ [rq])
             else fetch_pages get start now (page + 1) (all_articles @ rows) (requests @ [rq]))"

definition fetch_news ::
  "(request \<Rightarrow> response) \<Rightarrow> int \<Rightarrow> int \<Rightarrow> (gdelt_article list \<times> request list) option" where
  "fetch_news get now hours = fetch_pages get (now - 3600 * hours) now 1 [] []"


section \<open>Feed collector (RSS)\<close>

definition RSS_FEEDS :: "string list" where
  "RSS_FEEDS =
     [''https://finance.yahoo.com/rss/'',
      ''https://www.investing.com/rss/news_301.rss'',
      ''https://www.cnbc.com/id/100003114/device/rss/rss.html'',
      ''https://www.marketwatch.com/rss/topstories'',
      ''https://www.coindesk.com/arc/outboundfeeds/rss/'',
      ''https://www.bloomberg.com/feed/podcast/etf-report.xml'',
      ''https://feeds.a.dj.com/rss/RSSMarketsMain.xml'',
      ''https://www.economist.com/finance-and-economics/rss.xml'',
      ''https://rss.nytimes.com/services/xml/rss/nyt/Business.xml'',
      ''https://rss.nytimes.com/services/xml/rss/nyt/Economy.xml'']"

text \<open>
  A feed entry: \<open>title\<close> and \<open>link\<close> are read with \<open>getattr(entry, _, "")\<close>,
  \<open>published_parsed\<close> counts only when the attribute exists and is truthy. It is a
  \<open>struct_time\<close> in UTC of the years 1 to 9999, given here by the seconds its fields
  spell, counted from 1970-01-01 00:00:00.
\<close>

record entry =
  entry_title :: "string option"
  entry_link :: "string option"
  entry_published_parsed :: "int option"

text \<open>\<open>store_article\<close>: on a duplicate key it returns before any mention row is written.\<close>

definition store_article ::
  "store \<Rightarrow> string \<Rightarrow> string \<Rightarrow> datetime \<Rightarrow> string list \<Rightarrow> store" where
  "store_article con title url ts ms =
     (let article_id = hash_id_rss url
      in case insert_news_article con article_id title ts of
           None \<Rightarrow> con
         | Some c \<Rightarrow> insert_mention_rows c article_id ms)"

text \<open>
  \<^verbatim>\<open>datetime.fromtimestamp(time.mktime(entry.published_parsed), timezone.utc)\<close>
  on a machine whose local time is \<open>tz\<close> seconds east of UTC: \<open>time.mktime\<close> reads
  the fields as local time, which gives the epoch second \<open>published_parsed - tz\<close>,
  and \<open>fromtimestamp\<close> makes it a UTC \<open>datetime\<close>, or raises \<open>ValueError\<close>
  outside the years 1 to 9999.
\<close>

definition feed_time :: "int \<Rightarrow> int \<Rightarrow> error + datetime" where
  "feed_time tz published_parsed =
     (let epoch = published_parsed - tz
      in if - 62135596800 \<le> epoch \<and> epoch \<le> 253402300799 then Inr (Aware (epoch * 1000000) 0)
         else Inl ValueError)"

text \<open>
  The body of the inner loop of \<open>poll_once\<close>. \<open>utcnow\<close> is the reading of
  \<^verbatim>\<open>datetime.utcnow()\<close>, in microseconds, which
  \<^verbatim>\<open>.replace(tzinfo=timezone.utc)\<close> makes a UTC time. The timestamp is made
  before the title is matched.
\<close>

definition poll_entry ::
  "(string \<Rightarrow> string) \<Rightarrow> int \<Rightarrow> int \<Rightarrow> store \<times> nat \<Rightarrow> entry \<Rightarrow> error + store \<times> nat" where
  "poll_entry lower tz utcnow st entry =
     (let title = (case entry_title entry of None \<Rightarrow> [] | Some t \<Rightarrow> t);
          link = (case entry_link entry of None \<Rightarrow> [] | Some l \<Rightarrow> l)
      in if title = [] \<or> link = [] then Inr st
         else (case (case entry_published_parsed entry of
                       Some published_parsed \<Rightarrow> feed_time tz published_parsed
                     | None \<Rightarrow> Inr (Aware utcnow 0)) of
                 Inl e \<Rightarrow> Inl e
               | Inr ts \<Rightarrow>
                   (let ms = mentions lower COMPANY_NAMES_rss title
                    in if ms \<noteq> [] then Inr (store_article (fst st) title link ts ms, snd st + 1)
                       else Inr st)))"

text \<open>The loop over the entries of one feed; an exception leaves it.\<close>

fun poll_entries ::
  "(string \<Rightarrow> string) \<Rightarrow> int \<Rightarrow> int \<Rightarrow> store \<times> nat \<Rightarrow> entry list
     \<Rightarrow> error option \<times> store \<times> nat" where
  "poll_entries lower tz utcnow st [] = (None, st)"
| "poll_entries lower tz utcnow st (entry # entries) =
     (case poll_entry lower tz utcnow st entry of
        Inl e \<Rightarrow> (Some e, st)
      | Inr st' \<Rightarrow> poll_entries lower tz utcnow st' entries)"

text \<open>
  The loop over the feeds. \<open>parse\<close> stands for \<open>feedparser.parse(url)\<close> together with
  the read of \<open>feed.entries\<close>: the entries, or the exception it raises. Nothing in
  \<open>poll_once\<close> catches an exception, so it leaves the function; the rows written so
  far stay, the count is lost.
\<close>

fun poll_feeds ::
  "(string \<Rightarrow> string) \<Rightarrow> (string \<Rightarrow> error + entry list) \<Rightarrow> int \<Rightarrow> int \<Rightarrow> string list
     \<Rightarrow> store \<times> nat \<Rightarrow> (error + nat) \<times> store" where
  "poll_feeds lower parse tz utcnow [] st = (Inr (snd st), fst st)"
| "poll_feeds lower parse tz utcnow (url # urls) st =
     (case parse url of
        Inl e \<Rightarrow> (Inl e, fst st)
      | Inr entries \<Rightarrow>
          (case poll_entries lower tz utcnow st entries of
             (Some e, st') \<Rightarrow> (Inl e, fst st')
           | (None, st') \<Rightarrow> poll_feeds lower parse tz utcnow urls st'))"

definition poll_once ::
  "(string \<Rightarrow> string) \<Rightarrow> (string \<Rightarrow> error + entry list) \<Rightarrow> int \<Rightarrow> int \<Rightarrow> store
     \<Rightarrow> (error + nat) \<times> store" where
  "poll_once lower parse tz utcnow con = poll_feeds lower parse tz utcnow RSS_FEEDS (con, 0)"


section \<open>Microblog collector (Twitter)\<close>

record tweet =
  tw_id :: string
  tw_text :: string
  tw_created_at :: string
  tw_followers_count :: "int option"

definition MIN_FOLLOWERS :: int where
  "MIN_FOLLOWERS = 10000"

text \<open>
  The loop body of the microblog \<open>save_to_db\<close>, on the store and the counter
  \<open>added\<close>. \<open>strptime\<close> stands for
  \<^verbatim>\<open>datetime.strptime(tw.created_at, "%a %b %d %H:%M:%S %z %Y")\<close>: the reading
  and the offset that the text names, \<open>None\<close> where it raises \<open>ValueError\<close>. The
  follower test comes first; a duplicate key ends the pass with \<open>continue\<close>.
\<close>

definition save_tweet ::
  "(string \<Rightarrow> string) \<Rightarrow> (string \<Rightarrow> (int \<times> int) option) \<Rightarrow> store \<times> nat \<Rightarrow> tweet
     \<Rightarrow> error + store \<times> nat" where
  "save_tweet lower strptime st tw =
     (if (case tw_followers_count tw of None \<Rightarrow> 0 | Some n \<Rightarrow> n) < MIN_FOLLOWERS then Inr st
      else (let tweet_id = hash_id_twitter (tw_id tw);
                title = tw_text tw
            in case strptime (tw_created_at tw) of
                 None \<Rightarrow> Inl ValueError
               | Some parsed \<Rightarrow>
                   (let ts = Aware (fst parsed) (snd parsed);
                        ms = mentions lower COMPANY_NAMES title
                    in if ms = [] then Inr st
                       else (case insert_news_article (fst st) tweet_id title ts of
                               None \<Rightarrow> Inr st
                             | Some c \<Rightarrow> Inr (insert_mention_rows c tweet_id ms, snd st + 1)))))"

fun save_tweets ::
  "(string \<Rightarrow> string) \<Rightarrow> (string \<Rightarrow> (int \<times> int) option) \<Rightarrow> store \<times> nat \<Rightarrow> tweet list
     \<Rightarrow> (error + nat) \<times> store" where
  "save_tweets lower strptime st [] = (Inr (snd st), fst st)"
| "save_tweets lower strptime st (tw # tweets) =
     (case save_tweet lower strptime st tw of
        Inl e \<Rightarrow> (Inl e, fst st)
      | Inr st' \<Rightarrow> save_tweets lower strptime st' tweets)"

definition save_to_db_twitter ::
  "(string \<Rightarrow> string) \<Rightarrow> (string \<Rightarrow> (int \<times> int) option) \<Rightarrow> store \<Rightarrow> tweet list
     \<Rightarrow> (error + nat) \<times> store" where
  "save_to_db_twitter lower strptime con tweets = save_tweets lower strptime (con, 0) tweets"

text \<open>
  \<^verbatim>\<open>datetime.fromtimestamp(e.rate_limit_reset)\<close> on a 64-bit Linux machine whose
  local time is \<open>tz\<close> seconds east of UTC throughout: the naive local reading of the
  epoch second, in seconds, or the exception raised. A second that does not fit the
  platform's \<open>time_t\<close> gives \<open>OverflowError\<close>, one whose year the C library cannot
  hold gives \<open>OSError\<close>, and one outside the years that \<open>datetime\<close> takes gives
  \<open>ValueError\<close>; the first day of year 1 is refused too, as the conversion also
  looks one day back.
\<close>

definition fromtimestamp :: "int \<Rightarrow> int \<Rightarrow> error + int" where
  "fromtimestamp tz t =
     (if t < - 9223372036854775808 \<or> 9223372036854775807 < t then Inl OverflowError
      else if t + tz < - 67768040609740800 \<or> 67768036191676799 < t + tz then Inl OSError
      else if t + tz < - 62135510400 \<or> 253402300799 < t + tz then Inl ValueError
      else Inr (t + tz))"

text \<open>
  \<open>int(delta.total_seconds())\<close> for a \<open>timedelta\<close> of \<open>us\<close> microseconds.
  \<open>total_seconds\<close> is the float nearest to \<open>us / 10 ** 6\<close> (53 significant bits,
  ties to the even one), and \<open>int\<close> truncates that float towards zero.
\<close>

definition round_half_even :: "int \<Rightarrow> int \<Rightarrow> int" where
  "round_half_even x y =
     (let q = x div y; r = x mod y
      in if 2 * r < y then q else if y < 2 * r then q + 1 else if even q then q else q + 1)"

function bit_length :: "int \<Rightarrow> nat" where
  "bit_length n = (if n \<le> 0 then 0 else Suc (bit_length (n div 2)))"
  by pat_completeness auto
termination
  by (relation "measure nat") auto

declare bit_length.simps [simp del]

definition int_total_seconds :: "int \<Rightarrow> int" where
  "int_total_seconds us =
     (let a = \<bar>us\<bar>;
          v = (if a < 1000000 then 0
               else (let k = bit_length (a div 1000000) - 1
                     in if k \<le> 52
                        then round_half_even (a * 2 ^ (52 - k)) 1000000 div 2 ^ (52 - k)
                        else round_half_even a (1000000 * 2 ^ (k - 52)) * 2 ^ (k - 52)))
      in if 0 \<le> us then v else - v)"

text \<open>
  The rate-limit wait of \<open>poll_twitter\<close>:
  \<^verbatim>\<open>reset = datetime.fromtimestamp(e.rate_limit_reset)
  wait = max(1, int((reset - datetime.utcnow()).total_seconds()))\<close>
  \<open>reset\<close> is a naive local reading and \<open>utcnow\<close> a naive UTC reading, here in
  microseconds; their difference is taken as it stands.
\<close>

definition rate_limit_wait :: "int \<Rightarrow> int \<Rightarrow> int \<Rightarrow> error + int" where
  "rate_limit_wait tz rate_limit_reset utcnow_us =
     (case fromtimestamp tz rate_limit_reset of
        Inl e \<Rightarrow> Inl e
      | Inr reset \<Rightarrow> Inr (max 1 (int_total_seconds (reset * 1000000 - utcnow_us))))"

text \<open>
  What one \<^verbatim>\<open>await latest_tweets(client)\<close> gives: tweets, \<open>TooManyRequests\<close> with
  its \<open>rate_limit_reset\<close> (absent when the response had no reset header), or another
  exception.
\<close>

datatype fetched = Tweets "tweet list" | TooManyRequests "int option" | Failed error

record poll_state =
  ps_con :: store
  ps_stored :: nat
  ps_sleeps :: "int list"

text \<open>
  \<open>poll_twitter\<close> is \<open>while True\<close>: it ends only by an exception. The model runs it
  against a finite prefix of what the endpoint and the clock give, one pair per pass;
  \<open>None\<close> says that the loop is still running when the prefix is used up. Every
  \<open>asyncio.sleep\<close> is recorded in \<open>ps_sleeps\<close>. An exception raised while the
  wait is computed is raised inside the handler and leaves the loop.
\<close>

fun poll_twitter ::
  "(string \<Rightarrow> string) \<Rightarrow> int \<Rightarrow> (string \<Rightarrow> (int \<times> int) option) \<Rightarrow> int \<Rightarrow> (fetched \<times> int) list
     \<Rightarrow> poll_state \<Rightarrow> error option \<times> poll_state" where
  "poll_twitter lower tz strptime interval_seconds [] s = (None, s)"
| "poll_twitter lower tz strptime interval_seconds ((Failed e, utcnow_us) # env) s = (Some e, s)"
| "poll_twitter lower tz strptime interval_seconds ((TooManyRequests None, utcnow_us) # env) s =
     (Some TypeError, s)"
| "poll_twitter lower tz strptime interval_seconds ((TooManyRequests (Some reset), utcnow_us) # env) s =
     (case rate_limit_wait tz reset utcnow_us of
        Inl e \<Rightarrow> (Some e, s)
      | Inr wait \<Rightarrow>
          poll_twitter lower tz strptime interval_seconds env (s\<lparr>ps_sleeps := ps_sleeps s @ [wait]\<rparr>))"
| "poll_twitter lower tz strptime interval_seconds ((Tweets tweets, utcnow_us) # env) s =
     (if tweets \<noteq> [] then
        (case save_to_db_twitter lower strptime (ps_con s) tweets of
           (Inl e, con') \<Rightarrow> (Some e, s\<lparr>ps_con := con'\<rparr>)
         | (Inr n, con') \<Rightarrow>
             poll_twitter lower tz strptime interval_seconds env
               (s\<lparr>ps_con := con', ps_stored := ps_stored s + n,
                  ps_sleeps := ps_sleeps s @ [interval_seconds]\<rparr>))
      else poll_twitter lower tz strptime interval_seconds env
             (s\<lparr>ps_sleeps := ps_sleeps s @ [interval_seconds]\<rparr>))"


section \<open>Library values on the sample inputs\<close>

text \<open>
  What the two \<open>strptime\<close> calls give on the sample texts used below:
  2025-07-15 17:45:00 for the \<open>seendate\<close>, and the three tweet times with offset
  \<open>+0000\<close>. These are tables of the sample texts alone and are applied to no other
  text; every general statement takes the parser as a parameter.
\<close>

definition strptime_seendate :: "string \<Rightarrow> int option" where
  "strptime_seendate s = (if s = ''20250715174500'' then Some 1752601500000000 else None)"

definition strptime_created_at :: "string \<Rightarrow> (int \<times> int) option" where
  "strptime_created_at s =
     (if s = ''Tue Jul 15 01:55:08 +0000 2025'' then Some (1752544508000000, 0)
      else if s = ''Tue Jul 15 01:55:31 +0000 2025'' then Some (1752544531000000, 0)
      else if s = ''Tue Jul 15 01:56:30 +0000 2025'' then Some (1752544590000000, 0)
      else None)"

section \<open>Attention graph builder\<close>

text \<open>
  Modelled from the spec: the Attention Graph Builder
  \<open>build(mentions_in_window) -> AttentionGraph\<close> is not among the collector
  notebooks. The spec gives it as: edges undirected, keyed by the unordered ticker
  pair; for every event with two or more matched tickers, every unordered pair of
  its tickers gets its weight incremented by a single co-mention unit; an event with
  one ticker contributes no edge; the weight over a window is the sum of the unit
  contributions. An edge is the set of its two tickers, a graph the weight of every
  edge, and the window the list of the matched-ticker lists of its events.
\<close>

type_synonym graph = "string set \<Rightarrow> nat"

text \<open>
  Modelled from the spec: the unordered pairs of an event's tickers ("every unordered
  pair of its tickers", "triangle expansion, not just adjacent pairs").
\<close>

fun pairs :: "'a list \<Rightarrow> ('a \<times> 'a) list" where
  "pairs [] = []"
| "pairs (x # xs) = map (Pair x) xs @ pairs xs"

text \<open>
  Modelled from the spec: "incremented by a single co-mention unit", on the edge
  keyed by the unordered pair.
\<close>

definition increment :: "graph \<Rightarrow> string \<times> string \<Rightarrow> graph" where
  "increment g ab = g({fst ab, snd ab} := g {fst ab, snd ab} + 1)"

text \<open>
  Modelled from the spec: what one event contributes. Its matched tickers are a set,
  so a ticker listed twice counts once.
\<close>

definition add_event :: "graph \<Rightarrow> string list \<Rightarrow> graph" where
  "add_event g tickers = foldl increment g (pairs (remdups tickers))"

text \<open>
  Modelled from the spec: \<open>build(mentions_in_window)\<close>, "a sum of unit
  contributions" over the events of the window, from the graph without weights.
\<close>

definition build :: "string list list \<Rightarrow> graph" where
  "build mentions_in_window = foldl add_event (\<lambda>e. 0) mentions_in_window"


section \<open>Evaluation on the sample inputs\<close>

lemma mentions_apple_beats:
  "mentions lower_ascii COMPANY_NAMES ''Apple beats estimates'' = [''AAPL'']"
  by code_simp

lemma mentions_scenario:
  "mentions lower_ascii COMPANY_NAMES ''Apple and Nvidia both rally as Bitcoin dips''
     = [''AAPL'', ''NVDA'', ''BTC'']"
  by code_simp

lemma mentions_mixed_case:
  "mentions lower_ascii COMPANY_NAMES ''APPLE and nvidia both rally as BitCoin dips, msft flat''
     = [''AAPL'', ''NVDA'', ''MSFT'', ''BTC'']"
  by code_simp

lemma findall_sample:
  "findall_ascii (upper_ascii (''btc and Nvda up, BTCUSD flat'' @ '' '' @ ''long MSFT''))
     = [''BTC'', ''AND'', ''NVDA'', ''UP'', ''FLAT'', ''LONG'', ''MSFT'']"
  by code_simp

lemma clean_seendate_sample:
  "clean_seendate ''20250715T174500Z'' = ''20250715174500''"
  by code_simp

lemma hash_id_gdelt_plain:
  "hash_id_gdelt ''https://example.com/a''
     = ''2dce0a4c50441bfccfa9caf4b58c3cba6e06c420505dd829f0436de1aa44baac''"
  by code_simp

lemma hash_id_gdelt_tracked:
  "hash_id_gdelt ''https://example.com/a?utm_source=x''
     = ''fc6fdec311fa9908e59c7cab0987be1c0b28630ad2b6ce68ab18f9c3cc436eff''"
  by code_simp

lemma hash_id_rss_plain:
  "hash_id_rss ''https://example.com/a''
     = ''2dce0a4c50441bfccfa9caf4b58c3cba6e06c420505dd829f0436de1aa44baac''"
  using hash_id_gdelt_plain by (simp add: hash_id_gdelt_def hash_id_rss_def)

lemma mentions_rss_apple:
  "mentions lower_ascii COMPANY_NAMES_rss ''Apple beats estimates'' = [''AAPL'']"
  by code_simp

lemma mentions_rss_nvidia:
  "mentions lower_ascii COMPANY_NAMES_rss ''Nvidia stock pops'' = [''NVDA'']"
  by code_simp



section \<open>Duplicate keys\<close>

text \<open>
  The feed collector and the microblog collector leave the store as it is when the
  key is already there.
\<close>

lemma store_article_duplicate:
  "hash_id_rss url \<in> set (map fst (news_articles con)) \<Longrightarrow> store_article con title url ts ms = con"
  by (simp add: store_article_def insert_news_article_def)

lemma save_tweet_duplicate:
  "hash_id_twitter (tw_id tw) \<in> set (map fst (news_articles (fst st))) \<Longrightarrow>
   save_tweet lower strptime st tw = Inr st \<or> save_tweet lower strptime st tw = Inl ValueError"
  by (simp add: save_tweet_def insert_news_article_def Let_def split: option.splits)

text \<open>
  C1. A duplicate is to be absorbed with the store left unchanged, so that the same
  event inserted several times has at most one \<open>(event_id, ticker)\<close> row per ticker.
  The global-news \<open>save_to_db\<close> does not do this: saving the same article a second
  time keeps the single \<open>news_articles\<close> row and writes its mention row again.
\<close>

theorem gdelt_duplicate_repeats_mention_rows:
  "(let a = \<lparr>art_url = ''https://example.com/a'', art_title = Some ''Apple beats estimates'',
              art_seendate = Some ''20250715T174500Z''\<rparr>;
        once = snd (save_to_db_gdelt lower_ascii strptime_seendate empty_store [a]);
        twice = snd (save_to_db_gdelt lower_ascii strptime_seendate once [a])
    in news_articles once = [(hash_id_gdelt ''https://example.com/a'', ''Apple beats estimates'',
                              Aware 1752601500000000 0)]
       \<and> ticker_mentions once = [(hash_id_gdelt ''https://example.com/a'', ''AAPL'')]
       \<and> news_articles twice = news_articles once
       \<and> ticker_mentions twice = [(hash_id_gdelt ''https://example.com/a'', ''AAPL''),
                                   (hash_id_gdelt ''https://example.com/a'', ''AAPL'')]
       \<and> twice \<noteq> once)"
  by (simp add: save_article_gdelt_def empty_store_def insert_news_article_def
        insert_mention_rows_def insert_ticker_mention_def mentions_apple_beats
        clean_seendate_sample strptime_seendate_def Let_def)


section \<open>The substring matcher\<close>

lemma starts_with_iff: "starts_with xs ys \<longleftrightarrow> (\<exists>ss. ys = xs @ ss)"
  by (induction xs ys rule: starts_with.induct) auto

lemma str_in_iff: "str_in xs ys \<longleftrightarrow> (\<exists>ps ss. ys = ps @ xs @ ss)"
proof (induction ys)
  case Nil
  show ?case by simp
next
  case (Cons y ys)
  have "(\<exists>ps ss. y # ys = ps @ xs @ ss) \<longleftrightarrow>
        (\<exists>ss. y # ys = xs @ ss) \<or> (\<exists>ps ss. ys = ps @ xs @ ss)"
  proof
    assume "\<exists>ps ss. y # ys = ps @ xs @ ss"
    then obtain ps ss where eq: "y # ys = ps @ xs @ ss" by blast
    show "(\<exists>ss. y # ys = xs @ ss) \<or> (\<exists>ps ss. ys = ps @ xs @ ss)"
    proof (cases ps)
      case Nil
      with eq show ?thesis by auto
    next
      case (Cons p ps')
      with eq have "ys = ps' @ xs @ ss" by simp
      then show ?thesis by blast
    qed
  next
    assume "(\<exists>ss. y # ys = xs @ ss) \<or> (\<exists>ps ss. ys = ps @ xs @ ss)"
    then show "\<exists>ps ss. y # ys = ps @ xs @ ss"
    proof
      assume "\<exists>ss. y # ys = xs @ ss"
      then obtain ss where "y # ys = [] @ xs @ ss" by auto
      then show ?thesis by blast
    next
      assume "\<exists>ps ss. ys = ps @ xs @ ss"
      then obtain ps ss where "ys = ps @ xs @ ss" by blast
      then have "y # ys = (y # ps) @ xs @ ss" by simp
      then show ?thesis by blast
    qed
  qed
  with Cons show ?case by (simp add: starts_with_iff)
qed

text \<open>
  C2 (as amended). Whatever the case mapping \<open>str.lower\<close> is, the matcher of the
  global-news, feed and microblog collectors returns exactly the tickers of the
  watch-list entries whose name or symbol, lowered, occurs in the lowered text as a
  contiguous run. Every such entry is reported, whatever the other entries are: no
  match hides another. The social-stream notebook reports exactly the symbols of
  \<open>TICKERS\<close> that the search for \<^verbatim>\<open>\b[A-Z]{2,5}\b\<close> finds in the upper-cased
  title and body, and does not look at entity names.
\<close>

theorem mentions_exact:
  "set (mentions lower W title) =
     {tk. \<exists>name. (name, tk) \<in> set W \<and>
            ((\<exists>ps ss. lower title = ps @ lower name @ ss) \<or>
             (\<exists>ps ss. lower title = ps @ lower tk @ ss))}
   \<and> set (stream_matched upper findall post_title selftext)
       = set TICKERS \<inter> set (findall (upper (post_title @ '' '' @ selftext)))"
proof -
  have "set (mentions lower W title) =
          {tk. \<exists>name. (name, tk) \<in> set W \<and>
                 (str_in (lower name) (lower title) \<or> str_in (lower tk) (lower title))}"
    unfolding mentions_def by force
  then have 1: "set (mentions lower W title) =
     {tk. \<exists>name. (name, tk) \<in> set W \<and>
            ((\<exists>ps ss. lower title = ps @ lower name @ ss) \<or>
             (\<exists>ps ss. lower title = ps @ lower tk @ ss))}"
    by (simp only: str_in_iff)
  have 2: "set (stream_matched upper findall post_title selftext)
       = set TICKERS \<inter> set (findall (upper (post_title @ '' '' @ selftext)))"
    by (auto simp: stream_matched_def Let_def)
  from 1 2 show ?thesis by (rule conjI)
qed

theorem mentions_exact_witness:
  "set [''AAPL'', ''NVDA'', ''MSFT'', ''BTC''] =
     {tk. \<exists>name. (name, tk) \<in> set COMPANY_NAMES \<and>
            ((\<exists>ps ss. lower_ascii ''APPLE and nvidia both rally as BitCoin dips, msft flat''
                        = ps @ lower_ascii name @ ss) \<or>
             (\<exists>ps ss. lower_ascii ''APPLE and nvidia both rally as BitCoin dips, msft flat''
                        = ps @ lower_ascii tk @ ss))}
   \<and> set (stream_matched upper_ascii findall_ascii ''btc and Nvda up, BTCUSD flat'' ''long MSFT'')
       = set TICKERS \<inter> set [''BTC'', ''AND'', ''NVDA'', ''UP'', ''FLAT'', ''LONG'', ''MSFT'']"
  using mentions_exact
    [where lower = lower_ascii and W = COMPANY_NAMES
       and title = "''APPLE and nvidia both rally as BitCoin dips, msft flat''"
       and upper = upper_ascii and findall = findall_ascii
       and post_title = "''btc and Nvda up, BTCUSD flat''" and selftext = "''long MSFT''"]
  by (simp only: mentions_mixed_case findall_sample)

text \<open>
  C2 as stated fails on the social-stream matcher. On these two texts, where
  \<open>str.upper\<close> and the pattern search are as given for ASCII text, it does not
  report \<open>BTC\<close> although the symbol occurs in \<open>BTCUSD\<close>, and it reports nothing for
  a headline naming Bitcoin, where the substring matcher reports \<open>BTC\<close>.
\<close>

theorem stream_matched_whole_words_only:
  "str_in (lower_ascii ''BTC'') (lower_ascii (''BTCUSD rallies'' @ '' '' @ []))
   \<and> ''BTC'' \<notin> set (stream_matched upper_ascii findall_ascii ''BTCUSD rallies'' [])
   \<and> mentions lower_ascii COMPANY_NAMES ''Gold Explorer Joins Bitcoin Treasury Bandwagon - Decrypt''
       = [''BTC'']
   \<and> stream_matched upper_ascii findall_ascii
        ''Gold Explorer Joins Bitcoin Treasury Bandwagon - Decrypt'' [] = []"
  by code_simp


section \<open>Paging of the global-news fetcher\<close>

lemma fetch_pages_short:
  "get \<lparr>rq_page = page, rq_start = start, rq_end = now\<rparr> = Json_articles rows \<Longrightarrow> length rows \<le> 250 \<Longrightarrow>
   fetch_pages get start now page acc reqs
     = Some (acc @ rows, reqs @ [\<lparr>rq_page = page, rq_start = start, rq_end = now\<rparr>])"
  by (subst fetch_pages.simps) simp

lemma fetch_pages_long:
  "get \<lparr>rq_page = page, rq_start = start, rq_end = now\<rparr> = Json_articles rows \<Longrightarrow> 250 < length rows \<Longrightarrow>
   fetch_pages get start now page acc reqs
     = fetch_pages get start now (page + 1) (acc @ rows) (reqs @ [\<lparr>rq_page = page, rq_start = start, rq_end = now\<rparr>])"
  by (subst fetch_pages.simps) simp

lemma fetch_pages_failed:
  "get \<lparr>rq_page = page, rq_start = start, rq_end = now\<rparr> = Http_status st \<Longrightarrow>
   fetch_pages get start now page acc reqs
     = Some (acc, reqs @ [\<lparr>rq_page = page, rq_start = start, rq_end = now\<rparr>])"
  by (subst fetch_pages.simps) simp

text \<open>
  C3. The next page is to be requested exactly when the current page is full
  (250 records). \<open>fetch_news\<close> goes on only when a page has more than 250 rows:
  with a first page of exactly 250 articles and more on the second page, it makes the
  single request for page 1 and returns the 250 articles.
\<close>

theorem fetch_news_full_page_ends_paging:
  "(let a = \<lparr>art_url = ''https://example.com/a'', art_title = Some ''Apple beats estimates'',
              art_seendate = Some ''20250715T174500Z''\<rparr>;
        get = (\<lambda>rq. if rq_page rq = 1 then Json_articles (replicate 250 a) else Json_articles [a])
    in length (replicate 250 a) = 250
       \<and> fetch_news get 1752601500 1
           = Some (replicate 250 a, [\<lparr>rq_page = 1, rq_start = 1752597900, rq_end = 1752601500\<rparr>]))"
  by (simp add: fetch_news_def fetch_pages.simps Let_def)


section \<open>Edges of the attention graph\<close>

lemma foldl_increment:
  "foldl increment g ps e = g e + length (filter (\<lambda>ab. {fst ab, snd ab} = e) ps)"
  by (induction ps arbitrary: g) (auto simp: increment_def)

lemma count_partner:
  "distinct xs \<Longrightarrow> x \<notin> set xs \<Longrightarrow>
   length (filter (\<lambda>b. {x, b} = e) xs) = (if \<exists>b\<in>set xs. e = {x, b} then 1 else 0)"
proof (induction xs)
  case Nil
  show ?case by simp
next
  case (Cons y ys)
  then have IH: "length (filter (\<lambda>b. {x, b} = e) ys) = (if \<exists>b\<in>set ys. e = {x, b} then 1 else 0)"
    and xy: "x \<noteq> y" and y: "y \<notin> set ys" and x: "x \<notin> set ys"
    by simp_all
  show ?case
  proof (cases "{x, y} = e")
    case True
    have "\<not> (\<exists>b\<in>set ys. e = {x, b})"
    proof
      assume "\<exists>b\<in>set ys. e = {x, b}"
      then obtain b where b: "b \<in> set ys" and "{x, y} = {x, b}" using True by auto
      then have "y = b" using xy by (auto simp: doubleton_eq_iff)
      with b y show False by simp
    qed
    with True IH show ?thesis by auto
  next
    case False
    then have "(\<exists>b\<in>set (y # ys). e = {x, b}) \<longleftrightarrow> (\<exists>b\<in>set ys. e = {x, b})" by auto
    with False IH show ?thesis by simp
  qed
qed

lemma count_pairs_with:
  "length (filter (\<lambda>ab. {fst ab, snd ab} = e) (map (Pair x) xs)) = length (filter (\<lambda>b. {x, b} = e) xs)"
  by (induction xs) simp_all

lemma count_pairs:
  "distinct xs \<Longrightarrow>
   length (filter (\<lambda>ab. {fst ab, snd ab} = e) (pairs xs))
     = (if \<exists>a\<in>set xs. \<exists>b\<in>set xs. a \<noteq> b \<and> e = {a, b} then 1 else 0)"
proof (induction xs)
  case Nil
  show ?case by simp
next
  case (Cons x xs)
  let ?here = "\<exists>b\<in>set xs. e = {x, b}"
  let ?later = "\<exists>a\<in>set xs. \<exists>b\<in>set xs. a \<noteq> b \<and> e = {a, b}"
  let ?all = "\<exists>a\<in>set (x # xs). \<exists>b\<in>set (x # xs). a \<noteq> b \<and> e = {a, b}"
  from Cons.prems have x: "x \<notin> set xs" and d: "distinct xs" by simp_all
  have len: "length (filter (\<lambda>ab. {fst ab, snd ab} = e) (pairs (x # xs)))
          = (if ?here then 1 else 0) + (if ?later then 1 else 0)"
  proof -
    have "length (filter (\<lambda>ab. {fst ab, snd ab} = e) (pairs (x # xs)))
            = length (filter (\<lambda>b. {x, b} = e) xs)
              + length (filter (\<lambda>ab. {fst ab, snd ab} = e) (pairs xs))"
      by (simp only: pairs.simps filter_append length_append count_pairs_with)
    then show ?thesis
      by (simp only: count_partner [OF d x] Cons.IH [OF d])
  qed
  show ?case
  proof (cases ?here)
    case True
    then obtain b where b: "b \<in> set xs" and e: "e = {x, b}" by blast
    have "\<not> ?later"
    proof
      assume ?later
      then obtain a c where "a \<in> set xs" "c \<in> set xs" "{x, b} = {a, c}" using e by auto
      then show False using x by (auto simp: doubleton_eq_iff)
    qed
    moreover have ?all using b e x by (intro bexI [of _ x] bexI [of _ b]) auto
    ultimately show ?thesis using True len by simp
  next
    case False
    have "?all \<longleftrightarrow> ?later"
    proof
      assume ?all
      then obtain a c where ac: "a \<in> set (x # xs)" "c \<in> set (x # xs)" "a \<noteq> c" "e = {a, c}" by blast
      show ?later
      proof (cases "a = x \<or> c = x")
        case True
        with ac have "\<exists>b\<in>set xs. e = {x, b}" by (auto simp: insert_commute)
        with False show ?thesis by simp
      next
        case False
        with ac show ?thesis by auto
      qed
    next
      assume ?later
      then show ?all by auto
    qed
    with False len show ?thesis by simp
  qed
qed

lemma add_event_weight:
  "add_event g ts e = (if \<exists>a\<in>set ts. \<exists>b\<in>set ts. a \<noteq> b \<and> e = {a, b} then g e + 1 else g e)"
  using count_pairs [of "remdups ts" e] by (simp add: add_event_def foldl_increment)

lemma build_Nil: "build [] e = 0"
  by (simp add: build_def)

lemma build_snoc: "build (evs @ [ts]) = add_event (build evs) ts"
  by (simp add: build_def)

lemma foldl_add_event_self_loop: "foldl add_event g evs {a} = g {a}"
  by (induction evs arbitrary: g) (auto simp: add_event_weight doubleton_eq_iff)

text \<open>
  C4. Adding an event to the window raises the weight of an edge by exactly one when
  the edge joins two different tickers of the event, and leaves every other weight as
  it was; the weight of a self-loop stays 0 in every graph that is built; an event
  matching AAPL, MSFT and NVDA changes exactly the three edges between them.
\<close>

theorem triangle_expansion:
  "build (evs @ [ts]) e
     = (if \<exists>a\<in>set ts. \<exists>b\<in>set ts. a \<noteq> b \<and> e = {a, b} then build evs e + 1 else build evs e)
   \<and> build evs {a} = 0
   \<and> {e. build (evs @ [[''AAPL'', ''MSFT'', ''NVDA'']]) e \<noteq> build evs e}
       = {{''AAPL'', ''MSFT''}, {''AAPL'', ''NVDA''}, {''MSFT'', ''NVDA''}}"
proof -
  have 1: "build (evs @ [ts]) e
     = (if \<exists>a\<in>set ts. \<exists>b\<in>set ts. a \<noteq> b \<and> e = {a, b} then build evs e + 1 else build evs e)"
    for ts e
    by (simp only: build_snoc add_event_weight)
  have 2: "build evs {a} = 0"
    by (simp add: build_def foldl_add_event_self_loop)
  have 3: "{e. build (evs @ [[''AAPL'', ''MSFT'', ''NVDA'']]) e \<noteq> build evs e}
       = {{''AAPL'', ''MSFT''}, {''AAPL'', ''NVDA''}, {''MSFT'', ''NVDA''}}"
    unfolding 1 by (auto simp: doubleton_eq_iff)
  from 1 2 3 show ?thesis by blast
qed

theorem triangle_expansion_witness:
  "build [[''AAPL'', ''MSFT'', ''NVDA'']] {''AAPL'', ''NVDA''} = 1
   \<and> build [[''AAPL'', ''MSFT'', ''NVDA'']] {''AAPL'', ''GOOGL''} = 0
   \<and> build [[''AAPL'', ''MSFT'', ''NVDA'']] {''AAPL''} = 0"
  using triangle_expansion [of "[]" "[''AAPL'', ''MSFT'', ''NVDA'']" "{''AAPL'', ''NVDA''}" "''AAPL''"]
        triangle_expansion [of "[]" "[''AAPL'', ''MSFT'', ''NVDA'']" "{''AAPL'', ''GOOGL''}" "''AAPL''"]
        triangle_expansion [of "[[''AAPL'', ''MSFT'', ''NVDA'']]" "[]" "{}" "''AAPL''"]
  by (simp add: build_Nil doubleton_eq_iff)


section \<open>Feed failures\<close>

lemma poll_feeds_empty_feed:
  "parse u = Inr [] \<Longrightarrow>
   poll_feeds lower parse tz utcnow (fs1 @ u # fs2) st = poll_feeds lower parse tz utcnow (fs1 @ fs2) st"
proof (induction fs1 arbitrary: st)
  case Nil
  then show ?case by simp
next
  case (Cons f fs1)
  show ?case
  proof (cases "parse f")
    case (Inl e)
    then show ?thesis by simp
  next
    case (Inr entries)
    obtain r st' where p: "poll_entries lower tz utcnow st entries = (r, st')"
      by (cases "poll_entries lower tz utcnow st entries") auto
    show ?thesis
    proof (cases r)
      case None
      with Inr p Cons.IH [OF Cons.prems, of st'] show ?thesis by simp
    next
      case (Some e)
      with Inr p show ?thesis by simp
    qed
  qed
qed

lemma poll_feeds_raise:
  "parse u = Inl e \<Longrightarrow> poll_feeds lower parse tz utcnow (u # fs2) st = (Inl e, fst st)"
  by simp

text \<open>
  C5 (as amended). A feed whose parse gives no entries does not touch the rest of the
  cycle: the result is that of the cycle without it. An exception raised for a feed
  is not caught by \<open>poll_once\<close>: the cycle ends with it, the store as the feeds
  before it left it.
\<close>

theorem feed_failure_in_cycle:
  "(parse u = Inr [] \<longrightarrow>
      poll_feeds lower parse tz utcnow (fs1 @ u # fs2) st
        = poll_feeds lower parse tz utcnow (fs1 @ fs2) st)
   \<and> (parse u = Inl e \<longrightarrow> poll_feeds lower parse tz utcnow (u # fs2) st = (Inl e, fst st))"
  using poll_feeds_empty_feed [of parse u lower tz utcnow fs1 fs2 st]
    poll_feeds_raise [of parse u e lower tz utcnow fs2 st]
  by blast

theorem feed_failure_in_cycle_witness:
  "(let parse = (\<lambda>u. if u = ''https://finance.yahoo.com/rss/''
                      then Inr [\<lparr>entry_title = Some ''Apple beats estimates'',
                                 entry_link = Some ''https://example.com/a'',
                                 entry_published_parsed = Some 1752591856\<rparr>]
                    else if u = ''https://www.marketwatch.com/rss/topstories''
                      then Inr [\<lparr>entry_title = Some ''Nvidia stock pops'',
                                 entry_link = Some ''https://example.com/n'',
                                 entry_published_parsed = None\<rparr>]
                    else if u = ''https://www.investing.com/rss/news_301.rss''
                      then Inl (SourceError ''parse error'')
                    else Inr [])
    in parse ''https://www.cnbc.com/id/100003114/device/rss/rss.html'' = Inr []
       \<and> poll_feeds lower_ascii parse 0 1752592322000000
            [''https://finance.yahoo.com/rss/'',
             ''https://www.cnbc.com/id/100003114/device/rss/rss.html'',
             ''https://www.marketwatch.com/rss/topstories''] (empty_store, 0)
          = poll_feeds lower_ascii parse 0 1752592322000000
            [''https://finance.yahoo.com/rss/'',
             ''https://www.marketwatch.com/rss/topstories''] (empty_store, 0)
       \<and> parse ''https://www.investing.com/rss/news_301.rss'' = Inl (SourceError ''parse error'')
       \<and> poll_feeds lower_ascii parse 0 1752592322000000
            [''https://www.investing.com/rss/news_301.rss'',
             ''https://www.marketwatch.com/rss/topstories''] (empty_store, 0)
          = (Inl (SourceError ''parse error''), empty_store))"
  using feed_failure_in_cycle
    [of "\<lambda>u. if u = ''https://finance.yahoo.com/rss/''
                      then Inr [\<lparr>entry_title = Some ''Apple beats estimates'',
                                 entry_link = Some ''https://example.com/a'',
                                 entry_published_parsed = Some 1752591856\<rparr>]
                    else if u = ''https://www.marketwatch.com/rss/topstories''
                      then Inr [\<lparr>entry_title = Some ''Nvidia stock pops'',
                                 entry_link = Some ''https://example.com/n'',
                                 entry_published_parsed = None\<rparr>]
                    else if u = ''https://www.investing.com/rss/news_301.rss''
                      then Inl (SourceError ''parse error'')
                    else Inr []"
        "''https://www.cnbc.com/id/100003114/device/rss/rss.html''"
        lower_ascii 0 1752592322000000 "[''https://finance.yahoo.com/rss/'']"
        "[''https://www.marketwatch.com/rss/topstories'']" "(empty_store, 0)"]
  by (simp add: Let_def)

text \<open>
  C5 as stated fails. Of three feeds the second raises while it is parsed: the cycle
  ends with that exception instead of a count, and the matching headline of the third
  feed is not stored; only the rows of the first feed are there.
\<close>

theorem raised_parse_error_aborts_cycle:
  "(let parse = (\<lambda>u. if u = ''https://finance.yahoo.com/rss/''
                      then Inr [\<lparr>entry_title = Some ''Apple beats estimates'',
                                 entry_link = Some ''https://example.com/a'',
                                 entry_published_parsed = Some 1752591856\<rparr>]
                    else if u = ''https://www.marketwatch.com/rss/topstories''
                      then Inr [\<lparr>entry_title = Some ''Nvidia stock pops'',
                                 entry_link = Some ''https://example.com/n'',
                                 entry_published_parsed = None\<rparr>]
                    else Inl (SourceError ''parse error''));
        r = poll_feeds lower_ascii parse 0 1752592322000000
              [''https://finance.yahoo.com/rss/'',
               ''https://www.investing.com/rss/news_301.rss'',
               ''https://www.marketwatch.com/rss/topstories''] (empty_store, 0)
    in fst r = Inl (SourceError ''parse error'')
       \<and> news_articles (snd r) = [(hash_id_rss ''https://example.com/a'', ''Apple beats estimates'',
                                   Aware 1752591856000000 0)]
       \<and> ticker_mentions (snd r) = [(hash_id_rss ''https://example.com/a'', ''AAPL'')]
       \<and> mentions lower_ascii COMPANY_NAMES_rss ''Nvidia stock pops'' = [''NVDA''])"
  by (simp add: Let_def poll_entry_def feed_time_def store_article_def insert_news_article_def
        insert_mention_rows_def insert_ticker_mention_def empty_store_def
        mentions_rss_apple mentions_rss_nvidia)


section \<open>One row per article id\<close>

lemma news_articles_insert_mention_rows:
  "news_articles (insert_mention_rows con i ms) = news_articles con"
  by (induction ms arbitrary: con) (simp_all add: insert_mention_rows_def insert_ticker_mention_def)

lemma insert_news_article_rows:
  "insert_news_article con i title ts = Some c \<Longrightarrow>
   i \<notin> set (map fst (news_articles con)) \<and> news_articles c = news_articles con @ [(i, title, ts)]"
  by (auto simp: insert_news_article_def split: if_splits)

lemma insert_news_article_dup:
  "insert_news_article con i title ts = None \<Longrightarrow> i \<in> set (map fst (news_articles con))"
  by (auto simp: insert_news_article_def split: if_splits)

text \<open>What one pass of the global-news loop does to \<open>news_articles\<close>.\<close>

lemma save_article_gdelt_cases:
  assumes "save_article_gdelt lower p con a = Inr con'"
  shows "con' = con
         \<or> (\<exists>title ts ms.
               con' = insert_mention_rows
                        (case insert_news_article con (hash_id_gdelt (art_url a)) title ts of
                           None \<Rightarrow> con | Some c \<Rightarrow> c)
                        (hash_id_gdelt (art_url a)) ms)"
proof (cases "art_seendate a")
  case None
  with assms show ?thesis by (simp add: save_article_gdelt_def)
next
  case (Some s)
  show ?thesis
  proof (cases "p (clean_seendate s)")
    case None
    with Some assms show ?thesis by (simp add: save_article_gdelt_def Let_def split: if_splits)
  next
    case (Some t)
    with \<open>art_seendate a = Some s\<close> assms show ?thesis
      by (simp add: save_article_gdelt_def Let_def split: if_splits) blast
  qed
qed

lemma save_article_gdelt_rows:
  assumes "save_article_gdelt lower p con a = Inr con'"
  shows "news_articles con' = news_articles con
         \<or> (hash_id_gdelt (art_url a) \<notin> set (map fst (news_articles con))
            \<and> (\<exists>title ts. news_articles con' = news_articles con @ [(hash_id_gdelt (art_url a), title, ts)]))"
proof -
  from save_article_gdelt_cases [OF assms] show ?thesis
  proof
    assume "con' = con"
    then show ?thesis by simp
  next
    assume "\<exists>title ts ms.
               con' = insert_mention_rows
                        (case insert_news_article con (hash_id_gdelt (art_url a)) title ts of
                           None \<Rightarrow> con | Some c \<Rightarrow> c)
                        (hash_id_gdelt (art_url a)) ms"
    then obtain title ts ms where c: "con' = insert_mention_rows
                        (case insert_news_article con (hash_id_gdelt (art_url a)) title ts of
                           None \<Rightarrow> con | Some c \<Rightarrow> c)
                        (hash_id_gdelt (art_url a)) ms" by blast
    show ?thesis
    proof (cases "insert_news_article con (hash_id_gdelt (art_url a)) title ts")
      case None
      with c show ?thesis by (simp add: news_articles_insert_mention_rows)
    next
      case (Some d)
      from insert_news_article_rows [OF Some] c Some show ?thesis
        by (simp add: news_articles_insert_mention_rows)
    qed
  qed
qed

lemma save_article_gdelt_distinct:
  assumes "save_article_gdelt lower p con a = Inr con'" and "distinct (map fst (news_articles con))"
  shows "distinct (map fst (news_articles con'))"
  using save_article_gdelt_rows [OF assms(1)] assms(2) by auto

lemma save_article_gdelt_keeps:
  assumes "save_article_gdelt lower p con a = Inr con'" and "i \<in> set (map fst (news_articles con))"
  shows "i \<in> set (map fst (news_articles con'))"
  using save_article_gdelt_rows [OF assms(1)] assms(2) by auto

lemma save_article_gdelt_stored:
  assumes "save_article_gdelt lower p con a = Inr con'"
    and "art_seendate a = Some s" and "s \<noteq> []" and "p (clean_seendate s) = Some t"
    and "mentions lower COMPANY_NAMES (case art_title a of None \<Rightarrow> [] | Some x \<Rightarrow> x) \<noteq> []"
  shows "hash_id_gdelt (art_url a) \<in> set (map fst (news_articles con'))"
proof (cases "insert_news_article con (hash_id_gdelt (art_url a)) (case art_title a of None \<Rightarrow> [] | Some x \<Rightarrow> x) (Aware t 0)")
  case None
  then have "hash_id_gdelt (art_url a) \<in> set (map fst (news_articles con))"
    by (rule insert_news_article_dup)
  moreover from assms None have "news_articles con' = news_articles con"
    by (auto simp: save_article_gdelt_def Let_def news_articles_insert_mention_rows)
  ultimately show ?thesis by simp
next
  case (Some c)
  with assms have "news_articles con' = news_articles c"
    by (auto simp: save_article_gdelt_def Let_def news_articles_insert_mention_rows)
  with insert_news_article_rows [OF Some] show ?thesis by simp
qed

lemma save_to_db_gdelt_distinct:
  "save_to_db_gdelt lower p con arts = (r, con') \<Longrightarrow> distinct (map fst (news_articles con)) \<Longrightarrow>
   distinct (map fst (news_articles con'))"
proof (induction arts arbitrary: con)
  case Nil
  then show ?case by simp
next
  case (Cons a arts)
  show ?case
  proof (cases "save_article_gdelt lower p con a")
    case (Inl e)
    with Cons.prems show ?thesis by simp
  next
    case (Inr c)
    with Cons.prems have "save_to_db_gdelt lower p c arts = (r, con')" by simp
    moreover have "distinct (map fst (news_articles c))"
      using save_article_gdelt_distinct [OF Inr] Cons.prems(2) .
    ultimately show ?thesis by (rule Cons.IH)
  qed
qed

lemma save_to_db_gdelt_keeps:
  "save_to_db_gdelt lower p con arts = (r, con') \<Longrightarrow> i \<in> set (map fst (news_articles con)) \<Longrightarrow>
   i \<in> set (map fst (news_articles con'))"
proof (induction arts arbitrary: con)
  case Nil
  then show ?case by simp
next
  case (Cons a arts)
  show ?case
  proof (cases "save_article_gdelt lower p con a")
    case (Inl e)
    with Cons.prems show ?thesis by simp
  next
    case (Inr c)
    with Cons.prems have "save_to_db_gdelt lower p c arts = (r, con')" by simp
    moreover have "i \<in> set (map fst (news_articles c))"
      using save_article_gdelt_keeps [OF Inr] Cons.prems(2) .
    ultimately show ?thesis by (rule Cons.IH)
  qed
qed

lemma save_to_db_gdelt_stored:
  "save_to_db_gdelt lower p con arts = (None, con') \<Longrightarrow> a \<in> set arts \<Longrightarrow>
   art_seendate a = Some s \<Longrightarrow> s \<noteq> [] \<Longrightarrow> p (clean_seendate s) = Some t \<Longrightarrow>
   mentions lower COMPANY_NAMES (case art_title a of None \<Rightarrow> [] | Some x \<Rightarrow> x) \<noteq> [] \<Longrightarrow>
   hash_id_gdelt (art_url a) \<in> set (map fst (news_articles con'))"
proof (induction arts arbitrary: con)
  case Nil
  then show ?case by simp
next
  case (Cons b arts)
  show ?case
  proof (cases "save_article_gdelt lower p con b")
    case (Inl e)
    with Cons.prems(1) show ?thesis by simp
  next
    case (Inr c)
    with Cons.prems(1) have rest: "save_to_db_gdelt lower p c arts = (None, con')" by simp
    show ?thesis
    proof (cases "a = b")
      case True
      with Inr have "save_article_gdelt lower p con a = Inr c" by simp
      then have "hash_id_gdelt (art_url a) \<in> set (map fst (news_articles c))"
        using Cons.prems(3-6) by (rule save_article_gdelt_stored)
      with rest show ?thesis by (rule save_to_db_gdelt_keeps)
    next
      case False
      with Cons.prems(2) have ain: "a \<in> set arts" by simp
      from rest ain Cons.prems(3-6) show ?thesis by (rule Cons.IH)
    qed
  qed
qed

lemma distinct_count_one:
  "distinct (map fst rows) \<Longrightarrow> i \<in> set (map fst rows) \<Longrightarrow> length (filter (\<lambda>r. fst r = i) rows) = 1"
proof (induction rows)
  case Nil
  then show ?case by simp
next
  case (Cons r rows)
  show ?case
  proof (cases "fst r = i")
    case True
    with Cons.prems have "i \<notin> fst ` set rows" by auto
    then have "filter (\<lambda>r. fst r = i) rows = []" by (auto simp: filter_empty_conv)
    with True show ?thesis by simp
  next
    case False
    with Cons show ?thesis by auto
  qed
qed

text \<open>
  An article that has a \<open>seendate\<close> and matches: what its pass writes when its key
  is new, and when the key is there already.
\<close>

lemma save_article_gdelt_new_row:
  assumes "art_seendate a = Some s" and "s \<noteq> []" and "p (clean_seendate s) = Some t"
    and "mentions lower COMPANY_NAMES (case art_title a of None \<Rightarrow> [] | Some x \<Rightarrow> x) \<noteq> []"
    and "hash_id_gdelt (art_url a) \<notin> set (map fst (news_articles con))"
  shows "\<exists>con'. save_article_gdelt lower p con a = Inr con'
           \<and> news_articles con'
               = news_articles con
                 @ [(hash_id_gdelt (art_url a), case art_title a of None \<Rightarrow> [] | Some x \<Rightarrow> x,
                     Aware t 0)]"
  using assms
  by (simp add: save_article_gdelt_def insert_news_article_def Let_def
        news_articles_insert_mention_rows)

lemma save_article_gdelt_known_key:
  assumes "art_seendate a = Some s" and "s \<noteq> []" and "p (clean_seendate s) = Some t"
    and "hash_id_gdelt (art_url a) \<in> set (map fst (news_articles con))"
  shows "\<exists>con'. save_article_gdelt lower p con a = Inr con'
           \<and> news_articles con' = news_articles con"
  using assms
  by (simp add: save_article_gdelt_def insert_news_article_def Let_def
        news_articles_insert_mention_rows)

lemma save_to_db_gdelt_pair:
  assumes a: "art_seendate a = Some s" "s \<noteq> []" "p (clean_seendate s) = Some t"
      "mentions lower COMPANY_NAMES (case art_title a of None \<Rightarrow> [] | Some x \<Rightarrow> x) \<noteq> []"
    and b: "art_seendate b = Some s'" "s' \<noteq> []" "p (clean_seendate s') = Some t'"
      "mentions lower COMPANY_NAMES (case art_title b of None \<Rightarrow> [] | Some x \<Rightarrow> x) \<noteq> []"
    and fresh: "hash_id_gdelt (art_url a) \<notin> set (map fst (news_articles con))"
      "hash_id_gdelt (art_url b) \<notin> set (map fst (news_articles con))"
  shows "fst (save_to_db_gdelt lower p con [a, b]) = None
         \<and> news_articles (snd (save_to_db_gdelt lower p con [a, b]))
             = news_articles con
               @ [(hash_id_gdelt (art_url a), case art_title a of None \<Rightarrow> [] | Some x \<Rightarrow> x,
                   Aware t 0)]
               @ (if hash_id_gdelt (art_url b) = hash_id_gdelt (art_url a) then []
                  else [(hash_id_gdelt (art_url b), case art_title b of None \<Rightarrow> [] | Some x \<Rightarrow> x,
                         Aware t' 0)])"
proof -
  from a fresh(1)
  have "\<exists>c1. save_article_gdelt lower p con a = Inr c1
           \<and> news_articles c1
               = news_articles con
                 @ [(hash_id_gdelt (art_url a), case art_title a of None \<Rightarrow> [] | Some x \<Rightarrow> x,
                     Aware t 0)]"
    by (rule save_article_gdelt_new_row)
  then obtain c1 where c1: "save_article_gdelt lower p con a = Inr c1"
    and r1: "news_articles c1
               = news_articles con
                 @ [(hash_id_gdelt (art_url a), case art_title a of None \<Rightarrow> [] | Some x \<Rightarrow> x,
                     Aware t 0)]"
    by blast
  show ?thesis
  proof (cases "hash_id_gdelt (art_url b) = hash_id_gdelt (art_url a)")
    case True
    then have "hash_id_gdelt (art_url b) \<in> set (map fst (news_articles c1))"
      using r1 by simp
    with b(1-3)
    have "\<exists>c2. save_article_gdelt lower p c1 b = Inr c2 \<and> news_articles c2 = news_articles c1"
      by (rule save_article_gdelt_known_key)
    then obtain c2 where "save_article_gdelt lower p c1 b = Inr c2"
      and "news_articles c2 = news_articles c1"
      by blast
    with c1 r1 True show ?thesis by simp
  next
    case False
    then have "hash_id_gdelt (art_url b) \<notin> set (map fst (news_articles c1))"
      using r1 fresh(2) by simp
    with b
    have "\<exists>c2. save_article_gdelt lower p c1 b = Inr c2
           \<and> news_articles c2
               = news_articles c1
                 @ [(hash_id_gdelt (art_url b), case art_title b of None \<Rightarrow> [] | Some x \<Rightarrow> x,
                     Aware t' 0)]"
      by (rule save_article_gdelt_new_row)
    then obtain c2 where "save_article_gdelt lower p c1 b = Inr c2"
      and "news_articles c2
             = news_articles c1
               @ [(hash_id_gdelt (art_url b), case art_title b of None \<Rightarrow> [] | Some x \<Rightarrow> x,
                   Aware t' 0)]"
      by blast
    with c1 r1 False show ?thesis by simp
  qed
qed

text \<open>
  C6 (as amended). The key of the row stored for an article is \<open>hash_id\<close> of its URL
  string as received and of nothing else. After a batch that ran to its end, an
  article that has a \<open>seendate\<close> and matches the watch-list has exactly one
  \<open>news_articles\<close> row under that key, however many items of the batch (or rows of
  the store before it) carry that URL. Two such articles saved together into a store
  that has neither key leave one row when \<open>hash_id\<close> gives their URL strings the same
  value, and one row each, with their own keys, when it does not.
\<close>

theorem same_url_one_event:
  "(distinct (map fst (news_articles con))
      \<and> save_to_db_gdelt lower p con arts = (None, con')
      \<and> a \<in> set arts
      \<and> art_seendate a = Some s \<and> s \<noteq> [] \<and> p (clean_seendate s) = Some t
      \<and> mentions lower COMPANY_NAMES (case art_title a of None \<Rightarrow> [] | Some x \<Rightarrow> x) \<noteq> []
     \<longrightarrow> length (filter (\<lambda>r. fst r = hash_id_gdelt (art_url a)) (news_articles con')) = 1)
   \<and> (art_seendate a = Some s \<and> s \<noteq> [] \<and> p (clean_seendate s) = Some t
      \<and> mentions lower COMPANY_NAMES (case art_title a of None \<Rightarrow> [] | Some x \<Rightarrow> x) \<noteq> []
      \<and> art_seendate b = Some s' \<and> s' \<noteq> [] \<and> p (clean_seendate s') = Some t'
      \<and> mentions lower COMPANY_NAMES (case art_title b of None \<Rightarrow> [] | Some x \<Rightarrow> x) \<noteq> []
      \<and> hash_id_gdelt (art_url a) \<notin> set (map fst (news_articles con))
      \<and> hash_id_gdelt (art_url b) \<notin> set (map fst (news_articles con))
     \<longrightarrow> fst (save_to_db_gdelt lower p con [a, b]) = None
         \<and> news_articles (snd (save_to_db_gdelt lower p con [a, b]))
             = news_articles con
               @ [(hash_id_gdelt (art_url a), case art_title a of None \<Rightarrow> [] | Some x \<Rightarrow> x,
                   Aware t 0)]
               @ (if hash_id_gdelt (art_url b) = hash_id_gdelt (art_url a) then []
                  else [(hash_id_gdelt (art_url b), case art_title b of None \<Rightarrow> [] | Some x \<Rightarrow> x,
                         Aware t' 0)]))"
proof -
  have 1: "length (filter (\<lambda>r. fst r = hash_id_gdelt (art_url a)) (news_articles con')) = 1"
    if d: "distinct (map fst (news_articles con))"
      and run: "save_to_db_gdelt lower p con arts = (None, con')"
      and rest: "a \<in> set arts" "art_seendate a = Some s" "s \<noteq> []" "p (clean_seendate s) = Some t"
        "mentions lower COMPANY_NAMES (case art_title a of None \<Rightarrow> [] | Some x \<Rightarrow> x) \<noteq> []"
  proof -
    have "distinct (map fst (news_articles con'))"
      using run d by (rule save_to_db_gdelt_distinct)
    moreover have "hash_id_gdelt (art_url a) \<in> set (map fst (news_articles con'))"
      using run rest by (rule save_to_db_gdelt_stored)
    ultimately show ?thesis by (rule distinct_count_one)
  qed
  from 1 save_to_db_gdelt_pair [of a s p t lower b s' t' con] show ?thesis by blast
qed

theorem same_url_one_event_witness:
  "(let a = \<lparr>art_url = ''https://example.com/a'', art_title = Some ''Apple beats estimates'',
              art_seendate = Some ''20250715T174500Z''\<rparr>;
        b = \<lparr>art_url = ''https://example.com/a?utm_source=x'',
              art_title = Some ''Apple and Nvidia both rally as Bitcoin dips'',
              art_seendate = Some ''20250715T174500Z''\<rparr>;
        r = save_to_db_gdelt lower_ascii strptime_seendate empty_store [a, b, a];
        r2 = save_to_db_gdelt lower_ascii strptime_seendate empty_store [a, b];
        r1 = save_to_db_gdelt lower_ascii strptime_seendate empty_store [a, a]
    in fst r = None
       \<and> length (filter (\<lambda>row. fst row = hash_id_gdelt (art_url a)) (news_articles (snd r))) = 1
       \<and> fst r2 = None
       \<and> news_articles (snd r2)
           = [(''2dce0a4c50441bfccfa9caf4b58c3cba6e06c420505dd829f0436de1aa44baac'',
               ''Apple beats estimates'', Aware 1752601500000000 0),
              (''fc6fdec311fa9908e59c7cab0987be1c0b28630ad2b6ce68ab18f9c3cc436eff'',
               ''Apple and Nvidia both rally as Bitcoin dips'', Aware 1752601500000000 0)]
       \<and> news_articles (snd r1)
           = [(''2dce0a4c50441bfccfa9caf4b58c3cba6e06c420505dd829f0436de1aa44baac'',
               ''Apple beats estimates'', Aware 1752601500000000 0)])"
  using same_url_one_event
    [of empty_store lower_ascii strptime_seendate
        "[\<lparr>art_url = ''https://example.com/a'', art_title = Some ''Apple beats estimates'',
              art_seendate = Some ''20250715T174500Z''\<rparr>,
          \<lparr>art_url = ''https://example.com/a?utm_source=x'',
              art_title = Some ''Apple and Nvidia both rally as Bitcoin dips'',
              art_seendate = Some ''20250715T174500Z''\<rparr>,
          \<lparr>art_url = ''https://example.com/a'', art_title = Some ''Apple beats estimates'',
              art_seendate = Some ''20250715T174500Z''\<rparr>]"
        "snd (save_to_db_gdelt lower_ascii strptime_seendate empty_store
          [\<lparr>art_url = ''https://example.com/a'', art_title = Some ''Apple beats estimates'',
              art_seendate = Some ''20250715T174500Z''\<rparr>,
          \<lparr>art_url = ''https://example.com/a?utm_source=x'',
              art_title = Some ''Apple and Nvidia both rally as Bitcoin dips'',
              art_seendate = Some ''20250715T174500Z''\<rparr>,
          \<lparr>art_url = ''https://example.com/a'', art_title = Some ''Apple beats estimates'',
              art_seendate = Some ''20250715T174500Z''\<rparr>])"
        "\<lparr>art_url = ''https://example.com/a'', art_title = Some ''Apple beats estimates'',
              art_seendate = Some ''20250715T174500Z''\<rparr>"
        "''20250715T174500Z''" 1752601500000000
        "\<lparr>art_url = ''https://example.com/a?utm_source=x'',
              art_title = Some ''Apple and Nvidia both rally as Bitcoin dips'',
              art_seendate = Some ''20250715T174500Z''\<rparr>"
        "''20250715T174500Z''" 1752601500000000]
    same_url_one_event
    [of empty_store lower_ascii strptime_seendate "[]" empty_store
        "\<lparr>art_url = ''https://example.com/a'', art_title = Some ''Apple beats estimates'',
              art_seendate = Some ''20250715T174500Z''\<rparr>"
        "''20250715T174500Z''" 1752601500000000
        "\<lparr>art_url = ''https://example.com/a'', art_title = Some ''Apple beats estimates'',
              art_seendate = Some ''20250715T174500Z''\<rparr>"
        "''20250715T174500Z''" 1752601500000000]
  by (simp add: save_article_gdelt_def empty_store_def insert_news_article_def
        insert_mention_rows_def insert_ticker_mention_def mentions_apple_beats mentions_scenario
        clean_seendate_sample strptime_seendate_def hash_id_gdelt_plain hash_id_gdelt_tracked
        Let_def)

text \<open>
  C6 as stated fails: no URL is normalised before it is hashed. An article and its
  tracking-parameter variant get two ids and two \<open>news_articles\<close> rows.
\<close>

theorem tracking_variant_stored_twice:
  "(let a = \<lparr>art_url = ''https://example.com/a'', art_title = Some ''Apple beats estimates'',
              art_seendate = Some ''20250715T174500Z''\<rparr>;
        b = \<lparr>art_url = ''https://example.com/a?utm_source=x'', art_title = Some ''Apple beats estimates'',
              art_seendate = Some ''20250715T174500Z''\<rparr>;
        r = save_to_db_gdelt lower_ascii strptime_seendate empty_store [a, b]
    in fst r = None
       \<and> news_articles (snd r)
           = [(''2dce0a4c50441bfccfa9caf4b58c3cba6e06c420505dd829f0436de1aa44baac'',
               ''Apple beats estimates'', Aware 1752601500000000 0),
              (''fc6fdec311fa9908e59c7cab0987be1c0b28630ad2b6ce68ab18f9c3cc436eff'',
               ''Apple beats estimates'', Aware 1752601500000000 0)])"
  by (simp add: save_article_gdelt_def empty_store_def insert_news_article_def
        insert_mention_rows_def insert_ticker_mention_def mentions_apple_beats
        clean_seendate_sample strptime_seendate_def hash_id_gdelt_plain hash_id_gdelt_tracked
        Let_def)


section \<open>The follower threshold\<close>

lemma save_tweet_below:
  "(case tw_followers_count tw of None \<Rightarrow> 0 | Some n \<Rightarrow> n) < MIN_FOLLOWERS \<Longrightarrow>
   save_tweet lower strptime st tw = Inr st"
  by (simp add: save_tweet_def)

lemma save_tweets_filter:
  "save_tweets lower strptime st tweets
     = save_tweets lower strptime st
         (filter (\<lambda>tw. MIN_FOLLOWERS \<le> (case tw_followers_count tw of None \<Rightarrow> 0 | Some n \<Rightarrow> n)) tweets)"
proof (induction tweets arbitrary: st)
  case Nil
  show ?case by simp
next
  case (Cons tw tweets)
  show ?case
  proof (cases "(case tw_followers_count tw of None \<Rightarrow> 0 | Some n \<Rightarrow> n) < MIN_FOLLOWERS")
    case True
    then show ?thesis using Cons.IH [of st] by (simp add: save_tweet_below)
  next
    case False
    then show ?thesis using Cons.IH by (simp split: sum.splits)
  qed
qed

text \<open>
  C9. The microblog \<open>save_to_db\<close> gives the same result, store and count, as on the
  batch without the tweets whose follower count (0 when absent) is below
  \<open>MIN_FOLLOWERS\<close>: such a tweet is dropped before its date is parsed, before it is
  matched and before any insert. A batch of such tweets only leaves the store as it
  was.
\<close>

theorem below_threshold_never_stored:
  "save_to_db_twitter lower strptime con tweets
     = save_to_db_twitter lower strptime con
         (filter (\<lambda>tw. MIN_FOLLOWERS \<le> (case tw_followers_count tw of None \<Rightarrow> 0 | Some n \<Rightarrow> n)) tweets)
   \<and> ((\<forall>tw\<in>set tweets. (case tw_followers_count tw of None \<Rightarrow> 0 | Some n \<Rightarrow> n) < MIN_FOLLOWERS)
        \<longrightarrow> save_to_db_twitter lower strptime con tweets = (Inr 0, con))"
proof -
  have 1: "save_to_db_twitter lower strptime con tweets
     = save_to_db_twitter lower strptime con
         (filter (\<lambda>tw. MIN_FOLLOWERS \<le> (case tw_followers_count tw of None \<Rightarrow> 0 | Some n \<Rightarrow> n)) tweets)"
    unfolding save_to_db_twitter_def by (rule save_tweets_filter)
  have "filter (\<lambda>tw. MIN_FOLLOWERS \<le> (case tw_followers_count tw of None \<Rightarrow> 0 | Some n \<Rightarrow> n)) tweets = []"
    if "\<forall>tw\<in>set tweets. (case tw_followers_count tw of None \<Rightarrow> 0 | Some n \<Rightarrow> n) < MIN_FOLLOWERS"
    using that by (auto simp: filter_empty_conv)
  then have 2: "(\<forall>tw\<in>set tweets. (case tw_followers_count tw of None \<Rightarrow> 0 | Some n \<Rightarrow> n) < MIN_FOLLOWERS)
        \<longrightarrow> save_to_db_twitter lower strptime con tweets = (Inr 0, con)"
    using 1 by (simp add: save_to_db_twitter_def)
  from 1 2 show ?thesis by blast
qed

theorem below_threshold_never_stored_witness:
  "(let small = \<lparr>tw_id = ''1945000000000000001'', tw_text = ''Apple beats estimates'',
                 tw_created_at = ''Tue Jul 15 01:55:08 +0000 2025'', tw_followers_count = Some 9999\<rparr>;
        anon = \<lparr>tw_id = ''1945000000000000002'', tw_text = ''Apple beats estimates'',
                 tw_created_at = ''Tue Jul 15 01:55:31 +0000 2025'', tw_followers_count = None\<rparr>;
        big = \<lparr>tw_id = ''1945000000000000003'', tw_text = ''Apple beats estimates'',
                 tw_created_at = ''Tue Jul 15 01:56:30 +0000 2025'', tw_followers_count = Some 10000\<rparr>
    in save_to_db_twitter lower_ascii strptime_created_at empty_store [small, anon] = (Inr 0, empty_store)
       \<and> save_to_db_twitter lower_ascii strptime_created_at empty_store [small, big, anon]
           = (Inr 1, \<lparr>news_articles = [(hash_id_twitter ''1945000000000000003'', ''Apple beats estimates'',
                                          Aware 1752544590000000 0)],
                      ticker_mentions = [(hash_id_twitter ''1945000000000000003'', ''AAPL'')]\<rparr>))"
  using below_threshold_never_stored
    [of lower_ascii strptime_created_at empty_store
        "[\<lparr>tw_id = ''1945000000000000001'', tw_text = ''Apple beats estimates'',
                 tw_created_at = ''Tue Jul 15 01:55:08 +0000 2025'', tw_followers_count = Some 9999\<rparr>,
          \<lparr>tw_id = ''1945000000000000002'', tw_text = ''Apple beats estimates'',
                 tw_created_at = ''Tue Jul 15 01:55:31 +0000 2025'', tw_followers_count = None\<rparr>]"]
    below_threshold_never_stored
    [of lower_ascii strptime_created_at empty_store
        "[\<lparr>tw_id = ''1945000000000000001'', tw_text = ''Apple beats estimates'',
                 tw_created_at = ''Tue Jul 15 01:55:08 +0000 2025'', tw_followers_count = Some 9999\<rparr>,
          \<lparr>tw_id = ''1945000000000000003'', tw_text = ''Apple beats estimates'',
                 tw_created_at = ''Tue Jul 15 01:56:30 +0000 2025'', tw_followers_count = Some 10000\<rparr>,
          \<lparr>tw_id = ''1945000000000000002'', tw_text = ''Apple beats estimates'',
                 tw_created_at = ''Tue Jul 15 01:55:31 +0000 2025'', tw_followers_count = None\<rparr>]"]
  by (simp add: Let_def MIN_FOLLOWERS_def save_to_db_twitter_def save_tweet_def empty_store_def
        insert_news_article_def insert_mention_rows_def insert_ticker_mention_def mentions_apple_beats
        strptime_created_at_def)


section \<open>The three \<open>hash_id\<close> functions\<close>

text \<open>The model of the digest agrees with the standard's one-block example.\<close>

lemma sha256_abc:
  "hexdigest (sha256 ''abc'') = ''ba7816bf8f01cfea414140de5dae2223b00361a396177a9cb410ff61f20015ad''"
  by code_simp

lemma length_hex32: "length (hex32 w) = 8"
  by (simp add: hex32_def)

lemma length_hexdigest: "length (hexdigest s) = 64"
  by (simp add: hexdigest_def length_hex32)

lemma hexdigits: "map hexdigit [0..15] = ''0123456789abcdef''"
  by code_simp

lemma hexdigit_in: "0 \<le> n \<Longrightarrow> n < 16 \<Longrightarrow> hexdigit n \<in> set ''0123456789abcdef''"
proof -
  assume "0 \<le> n" and "n < 16"
  then have "n \<in> set [0..15]" by simp
  then have "hexdigit n \<in> set (map hexdigit [0..15])" by (simp only: set_map image_eqI)
  then show ?thesis by (simp only: hexdigits)
qed

lemma set_hex32: "set (hex32 w) \<subseteq> set ''0123456789abcdef''"
proof
  fix c assume "c \<in> set (hex32 w)"
  then obtain i where "c = hexdigit (w div 16 ^ i mod 16)" by (auto simp: hex32_def)
  moreover have "0 \<le> w div 16 ^ i mod 16" and "w div 16 ^ i mod 16 < 16" by simp_all
  ultimately show "c \<in> set ''0123456789abcdef''" using hexdigit_in by blast
qed

lemma set_hexdigest: "set (hexdigest s) \<subseteq> set ''0123456789abcdef''"
  unfolding hexdigest_def set_append using set_hex32 by blast

lemma hash_ids_equal:
  "hash_id_gdelt text = hash_id_rss text \<and> hash_id_rss text = hash_id_twitter text"
  by (simp add: hash_id_gdelt_def hash_id_rss_def hash_id_twitter_def)

lemma hash_id_64_hex_digits:
  "length (hash_id_gdelt text) = 64 \<and> set (hash_id_gdelt text) \<subseteq> set ''0123456789abcdef''"
  unfolding hash_id_gdelt_def using length_hexdigest set_hexdigest by blast

lemma rss_after_gdelt:
  assumes "hash_id_gdelt url \<in> set (map fst (news_articles con))"
  shows "store_article con title url ts ms = con"
proof -
  have "hash_id_rss url \<in> set (map fst (news_articles con))"
    using assms by (simp add: hash_id_gdelt_def hash_id_rss_def)
  then show ?thesis by (rule store_article_duplicate)
qed

text \<open>
  C10. The three \<open>hash_id\<close> functions give every string the same 64-digit SHA-256
  digest, so a URL seen by the global-news and by the feed collector is to be stored
  once. The ids do agree and the article row is stored once. But when the global-news
  collector comes after the feed collector, its \<open>save_to_db\<close> writes the mention
  row a second time; in the other order the store stays as it was.
\<close>

theorem feed_then_gdelt_repeats_mention_rows:
  "(let u = ''https://example.com/a'';
        k = ''2dce0a4c50441bfccfa9caf4b58c3cba6e06c420505dd829f0436de1aa44baac'';
        e = \<lparr>entry_title = Some ''Apple beats estimates'', entry_link = Some u,
              entry_published_parsed = Some 1752591856\<rparr>;
        a = \<lparr>art_url = u, art_title = Some ''Apple beats estimates'',
              art_seendate = Some ''20250715T174500Z''\<rparr>;
        fed = fst (snd (poll_entries lower_ascii 0 1752592322000000 (empty_store, 0) [e]));
        both = save_to_db_gdelt lower_ascii strptime_seendate fed [a];
        news = snd (save_to_db_gdelt lower_ascii strptime_seendate empty_store [a])
    in hash_id_rss u = k \<and> hash_id_gdelt u = k
       \<and> news_articles fed = [(k, ''Apple beats estimates'', Aware 1752591856000000 0)]
       \<and> ticker_mentions fed = [(k, ''AAPL'')]
       \<and> fst both = None
       \<and> news_articles (snd both) = news_articles fed
       \<and> ticker_mentions (snd both) = [(k, ''AAPL''), (k, ''AAPL'')]
       \<and> poll_entries lower_ascii 0 1752592322000000 (news, 0) [e] = (None, news, 1))"
  by (simp add: Let_def poll_entry_def feed_time_def store_article_def save_article_gdelt_def
        insert_news_article_def insert_mention_rows_def insert_ticker_mention_def empty_store_def
        mentions_rss_apple mentions_apple_beats clean_seendate_sample strptime_seendate_def
        hash_id_rss_plain hash_id_gdelt_plain)


section \<open>Where the stored timestamp comes from\<close>









section \<open>Rate limit of the microblog poller\<close>

lemma rate_limit_wait_ge_1:
  "rate_limit_wait tz reset utcnow_us = Inr wait \<Longrightarrow> 1 \<le> wait"
  by (auto simp: rate_limit_wait_def split: sum.splits)

lemma poll_twitter_rate_limited:
  "rate_limit_wait tz reset utcnow_us = Inr wait \<Longrightarrow>
   poll_twitter lower tz q i ((TooManyRequests (Some reset), utcnow_us) # env) s
     = poll_twitter lower tz q i env (s\<lparr>ps_sleeps := ps_sleeps s @ [wait]\<rparr>)"
  by simp

lemma poll_twitter_reset_out_of_range:
  "fromtimestamp tz reset = Inl e \<Longrightarrow>
   poll_twitter lower tz q i ((TooManyRequests (Some reset), utcnow_us) # env) s = (Some e, s)"
  by (simp add: rate_limit_wait_def)

lemma rate_limit_never_surfaces:
  "\<forall>x\<in>set env. \<exists>reset utcnow_us r. x = (TooManyRequests (Some reset), utcnow_us)
                                       \<and> fromtimestamp tz reset = Inr r \<Longrightarrow>
   fst (poll_twitter lower tz q i env s) = None
   \<and> ps_con (snd (poll_twitter lower tz q i env s)) = ps_con s"
  by (induction env arbitrary: s) (auto simp: rate_limit_wait_def)

lemma rate_limit_wait_samples:
  "rate_limit_wait 3600 1752601560 (1752601500 * 1000000) = Inr 3660
   \<and> rate_limit_wait (- 18000) 1752602100 (1752601500 * 1000000) = Inr 1
   \<and> rate_limit_wait 0 1752601560 (1752601500 * 1000000) = Inr 60"
  by code_simp

text \<open>
  C7. On a rate limit the loop is to sleep until the reset time, at least one second,
  and go on. The loop does go on, never sleeps less than a second and raises nothing
  for a rate limit whose reset time the clock library can read; but the wait is the
  difference of the local reading of the reset time and the UTC reading of the clock,
  so it reaches the reset time only on a machine whose local time is UTC. At 17:45:00
  UTC with the reset 60 seconds ahead, the loop sleeps 3660 seconds one hour east of
  UTC; with the reset 600 seconds ahead it sleeps 1 second five hours west of UTC; at
  UTC it sleeps 60 seconds.
\<close>

theorem rate_limit_sleep_misses_reset:
  "(let s0 = \<lparr>ps_con = empty_store, ps_stored = 0, ps_sleeps = []\<rparr>;
        utcnow_us = 1752601500 * 1000000
    in poll_twitter lower_ascii 3600 strptime_created_at 20
           [(TooManyRequests (Some 1752601560), utcnow_us)] s0
         = (None, s0\<lparr>ps_sleeps := [3660]\<rparr>)
       \<and> poll_twitter lower_ascii (- 18000) strptime_created_at 20
           [(TooManyRequests (Some 1752602100), utcnow_us)] s0
         = (None, s0\<lparr>ps_sleeps := [1]\<rparr>)
       \<and> poll_twitter lower_ascii 0 strptime_created_at 20
           [(TooManyRequests (Some 1752601560), utcnow_us)] s0
         = (None, s0\<lparr>ps_sleeps := [60]\<rparr>))"
  using rate_limit_wait_samples by (simp add: Let_def)

end
